theory Spec2Isabelle
  imports Complex_Main
begin

section \<open>A tile-grid platformer: level, player physics and camera\<close>

text \<open>
  The program is one C++ file, \<^verbatim>\<open>src/main.cpp\<close>. Its numbers are modelled as follows.
  \<^item> \<^verbatim>\<open>float\<close> is modelled by \<^typ>\<open>real\<close>: arithmetic is exact, there is no rounding, no
    infinity and no NaN. Every concrete input used below is a small number for which
    the single-precision computation takes the same branches.
  \<^item> \<^verbatim>\<open>int\<close> is modelled by \<^typ>\<open>int\<close> and \<^verbatim>\<open>unsigned\<close> by \<^typ>\<open>nat\<close>, without
    wrap-around. The cast of a \<^verbatim>\<open>float\<close> to \<^verbatim>\<open>int\<close> is total in the model; in C++ it is
    undefined for a value beyond the range of \<^verbatim>\<open>int\<close>, which takes a coordinate of more
    than \<open>2 ^ 31\<close> tiles.
  \<^item> \<^verbatim>\<open>sf::Vector2f\<close> and \<^verbatim>\<open>sf::Vector2u\<close> are pairs, \<open>fst\<close> the \<^verbatim>\<open>x\<close> and \<open>snd\<close> the
    \<^verbatim>\<open>y\<close> component.
  \<^item> Reading a \<^verbatim>\<open>std::vector\<close> with \<^verbatim>\<open>operator[]\<close> outside its length is undefined
    behaviour in C++; the model returns \<open>None\<close> there.
\<close>

subsection \<open>Global constants\<close>

definition GRAVITY :: real where
  "GRAVITY = 8 / 10"

definition PLAYER_MOVE_SPEED :: real where
  "PLAYER_MOVE_SPEED = 5"

definition PLAYER_JUMP_VELOCITY :: real where
  "PLAYER_JUMP_VELOCITY = - 18"

definition TILE_SIZE :: int where
  "TILE_SIZE = 40"

definition COLLISION_EPSILON :: real where
  "COLLISION_EPSILON = 1 / 100"

definition WINDOW_WIDTH :: nat where
  "WINDOW_WIDTH = 800"

definition WINDOW_HEIGHT :: nat where
  "WINDOW_HEIGHT = 600"

text \<open>\<^verbatim>\<open>static_cast<int>\<close> of a \<^verbatim>\<open>float\<close> drops the fractional part: it rounds toward zero.\<close>

definition static_cast_int :: "real \<Rightarrow> int" where
  "static_cast_int v = (if 0 \<le> v then \<lfloor>v\<rfloor> else \<lceil>v\<rceil>)"

subsection \<open>Level\<close>

datatype TileType = Air | Solid

text \<open>
  \<^verbatim>\<open>struct Level\<close>: the grid \<^verbatim>\<open>tiles[y][x]\<close>, its size in tiles and its size in pixels.
  The field \<^verbatim>\<open>size\<close> is called \<open>size_L\<close> here (\<open>size\<close> is a constant of HOL).
\<close>

record Level =
  tiles :: "TileType list list"
  size_L :: "nat \<times> nat"
  sizePixels :: "real \<times> real"

text \<open>\<^verbatim>\<open>v[i]\<close> on a \<^verbatim>\<open>std::vector\<close>: defined only below the vector's length.\<close>

definition vector_at :: "'a list \<Rightarrow> nat \<Rightarrow> 'a option" where
  "vector_at v i = (if i < length v then Some (v ! i) else None)"

text \<open>
  \<^verbatim>\<open>Level::getTile\<close> (lines 77 to 86). The comparisons \<^verbatim>\<open>x < size.x\<close> mix \<^verbatim>\<open>int\<close> and
  \<^verbatim>\<open>unsigned\<close>; they are reached only after \<^verbatim>\<open>x >= 0\<close> held, so the conversion of \<^verbatim>\<open>x\<close>
  to \<^verbatim>\<open>unsigned\<close> keeps its value.
\<close>

definition getTile :: "Level \<Rightarrow> int \<Rightarrow> int \<Rightarrow> TileType option" where
  "getTile level x y =
     (if x \<ge> 0 \<and> x < int (fst (size_L level)) \<and> y \<ge> 0 \<and> y < int (snd (size_L level))
      then (case vector_at (tiles level) (nat y) of
              None \<Rightarrow> None
            | Some row \<Rightarrow> vector_at row (nat x))
      else Some Air)"

text \<open>
  The grid is rectangular and as large as \<^verbatim>\<open>size\<close> says. \<^verbatim>\<open>createSimpleLevel\<close> builds such
  a level; the struct itself does not enforce it.
\<close>

definition level_ok :: "Level \<Rightarrow> bool" where
  "level_ok level \<longleftrightarrow>
     length (tiles level) = snd (size_L level) \<and>
     list_all (\<lambda>row. length row = fst (size_L level)) (tiles level)"

subsection \<open>Player\<close>

text \<open>
  \<^verbatim>\<open>struct Player\<close>. Of the \<^verbatim>\<open>sf::RectangleShape\<close> only the position changes after the
  constructor ran: the constructor (lines 105 to 115) sets the size to
  \<^verbatim>\<open>{TILE_SIZE * 0.8f, TILE_SIZE * 0.95f}\<close> and the origin to half the size, and no other
  statement of the program touches either. So the record holds the shape's position,
  and size and origin are constants.
\<close>

record Player =
  position :: "real \<times> real"
  velocity :: "real \<times> real"
  isOnGround :: bool

definition shape_getSize :: "real \<times> real" where
  "shape_getSize = (real_of_int TILE_SIZE * (8 / 10), real_of_int TILE_SIZE * (95 / 100))"

definition shape_getOrigin :: "real \<times> real" where
  "shape_getOrigin = (fst shape_getSize / 2, snd shape_getSize / 2)"

definition Player_new :: "real \<times> real \<Rightarrow> Player" where
  "Player_new startPos = \<lparr>position = startPos, velocity = (0, 0), isOnGround = False\<rparr>"

text \<open>\<^verbatim>\<open>Player::applyGravity\<close> (lines 118 to 121).\<close>

definition applyGravity :: "Player \<Rightarrow> Player" where
  "applyGravity p = p\<lparr>velocity := (fst (velocity p), snd (velocity p) + GRAVITY)\<rparr>"

text \<open>\<^verbatim>\<open>Player::jump\<close> (lines 124 to 132).\<close>

definition jump :: "Player \<Rightarrow> Player" where
  "jump p =
     (if isOnGround p
      then p\<lparr>velocity := (fst (velocity p), PLAYER_JUMP_VELOCITY), isOnGround := False\<rparr>
      else p)"

subsection \<open>Collision with the tiles\<close>

text \<open>
  \<^verbatim>\<open>sf::FloatRect\<close>, and \<^verbatim>\<open>shape.getGlobalBounds()\<close> for a shape that is neither rotated
  nor scaled: the rectangle of the shape's size whose top-left corner is the position
  minus the origin.
\<close>

record FloatRect =
  rect_position :: "real \<times> real"
  rect_size :: "real \<times> real"

definition getGlobalBounds :: "Player \<Rightarrow> FloatRect" where
  "getGlobalBounds p =
     \<lparr>rect_position = (fst (position p) - fst shape_getOrigin,
                       snd (position p) - snd shape_getOrigin),
      rect_size = shape_getSize\<rparr>"

text \<open>
  The four tile indices of a rectangle, as lines 155 to 158 and 200 to 204 compute
  them: the edges are moved inward by \<^verbatim>\<open>COLLISION_EPSILON\<close>, divided by \<^verbatim>\<open>TILE_SIZE\<close> and
  cast to \<^verbatim>\<open>int\<close>.
\<close>

definition leftTile :: "FloatRect \<Rightarrow> int" where
  "leftTile b =
     static_cast_int ((fst (rect_position b) + COLLISION_EPSILON) / real_of_int TILE_SIZE)"

definition rightTile :: "FloatRect \<Rightarrow> int" where
  "rightTile b =
     static_cast_int
       ((fst (rect_position b) + fst (rect_size b) - COLLISION_EPSILON) / real_of_int TILE_SIZE)"

definition topTile :: "FloatRect \<Rightarrow> int" where
  "topTile b =
     static_cast_int ((snd (rect_position b) + COLLISION_EPSILON) / real_of_int TILE_SIZE)"

definition bottomTile :: "FloatRect \<Rightarrow> int" where
  "bottomTile b =
     static_cast_int
       ((snd (rect_position b) + snd (rect_size b) - COLLISION_EPSILON) / real_of_int TILE_SIZE)"

text \<open>
  \<^verbatim>\<open>c && level.getTile(x, y) == Solid\<close>: the tile is read only when \<^verbatim>\<open>c\<close> holds, and the
  result is \<open>None\<close> when that read is outside the vectors.
\<close>

definition andSolid :: "bool \<Rightarrow> Level \<Rightarrow> int \<Rightarrow> int \<Rightarrow> bool option" where
  "andSolid c level x y =
     (if c then map_option (\<lambda>t. t = Solid) (getTile level x y) else Some False)"

text \<open>The bodies of the four collision branches (lines 166 to 170, 181 to 183, 212 to 214, 222 to 224).\<close>

definition landOnTile :: "int \<Rightarrow> Player \<Rightarrow> Player" where
  "landOnTile bottomTileV p =
     p\<lparr>position := (fst (position p),
                    real_of_int bottomTileV * real_of_int TILE_SIZE - snd shape_getSize / 2),
       velocity := (fst (velocity p), 0),
       isOnGround := True\<rparr>"

definition hitCeiling :: "int \<Rightarrow> Player \<Rightarrow> Player" where
  "hitCeiling topTileV p =
     p\<lparr>position := (fst (position p),
                    real_of_int (topTileV + 1) * real_of_int TILE_SIZE + snd shape_getSize / 2),
       velocity := (fst (velocity p), 0)\<rparr>"

definition hitRightWall :: "int \<Rightarrow> Player \<Rightarrow> Player" where
  "hitRightWall rightTileH p =
     p\<lparr>position := (real_of_int rightTileH * real_of_int TILE_SIZE - fst shape_getSize / 2,
                    snd (position p)),
       velocity := (0, snd (velocity p))\<rparr>"

definition hitLeftWall :: "int \<Rightarrow> Player \<Rightarrow> Player" where
  "hitLeftWall leftTileH p =
     p\<lparr>position := (real_of_int (leftTileH + 1) * real_of_int TILE_SIZE + fst shape_getSize / 2,
                    snd (position p)),
       velocity := (0, snd (velocity p))\<rparr>"

text \<open>
  The loop of lines 161 to 189 over the columns \<^verbatim>\<open>x = leftTileV, ..., rightTileV\<close>, given
  as the list still to visit. The state is the player and the local variable
  \<^verbatim>\<open>playerBounds\<close>; both branches end in \<^verbatim>\<open>break\<close>.
\<close>

fun verticalLoop ::
  "Level \<Rightarrow> int \<Rightarrow> int \<Rightarrow> int list \<Rightarrow> Player \<times> FloatRect \<Rightarrow> (Player \<times> FloatRect) option" where
  "verticalLoop level topTileV bottomTileV [] (p, playerBounds) = Some (p, playerBounds)"
| "verticalLoop level topTileV bottomTileV (x # xs) (p, playerBounds) =
     (case andSolid (snd (velocity p) > 0) level x bottomTileV of
        None \<Rightarrow> None
      | Some True \<Rightarrow>
          Some (landOnTile bottomTileV p, getGlobalBounds (landOnTile bottomTileV p))
      | Some False \<Rightarrow>
          (case andSolid (snd (velocity p) < 0) level x topTileV of
             None \<Rightarrow> None
           | Some True \<Rightarrow>
               Some (hitCeiling topTileV p, getGlobalBounds (hitCeiling topTileV p))
           | Some False \<Rightarrow> verticalLoop level topTileV bottomTileV xs (p, playerBounds)))"

text \<open>The loop of lines 207 to 228 over the rows \<^verbatim>\<open>y = topTileH, ..., bottomTileH\<close>.\<close>

fun horizontalLoop :: "Level \<Rightarrow> int \<Rightarrow> int \<Rightarrow> int list \<Rightarrow> Player \<Rightarrow> Player option" where
  "horizontalLoop level leftTileH rightTileH [] p = Some p"
| "horizontalLoop level leftTileH rightTileH (y # ys) p =
     (case andSolid (fst (velocity p) > 0) level rightTileH y of
        None \<Rightarrow> None
      | Some True \<Rightarrow> Some (hitRightWall rightTileH p)
      | Some False \<Rightarrow>
          (case andSolid (fst (velocity p) < 0) level leftTileH y of
             None \<Rightarrow> None
           | Some True \<Rightarrow> Some (hitLeftWall leftTileH p)
           | Some False \<Rightarrow> horizontalLoop level leftTileH rightTileH ys p))"

text \<open>The vertical check, lines 149 to 189.\<close>

definition verticalCheckBounds :: "Player \<Rightarrow> FloatRect \<Rightarrow> FloatRect" where
  "verticalCheckBounds p playerBounds =
     playerBounds\<lparr>rect_position :=
       (fst (rect_position playerBounds), snd (rect_position playerBounds) + snd (velocity p))\<rparr>"

definition verticalPass :: "Level \<Rightarrow> Player \<times> FloatRect \<Rightarrow> (Player \<times> FloatRect) option" where
  "verticalPass level s =
     (case s of (p, playerBounds) \<Rightarrow>
        (let leftTileV = leftTile (verticalCheckBounds p playerBounds);
             rightTileV = rightTile (verticalCheckBounds p playerBounds);
             topTileV = topTile (verticalCheckBounds p playerBounds);
             bottomTileV = bottomTile (verticalCheckBounds p playerBounds)
         in verticalLoop level topTileV bottomTileV [leftTileV..rightTileV] (p, playerBounds)))"

text \<open>The horizontal check, lines 196 to 228.\<close>

definition horizontalCheckBounds :: "Player \<Rightarrow> FloatRect \<Rightarrow> FloatRect" where
  "horizontalCheckBounds p playerBounds =
     playerBounds\<lparr>rect_position :=
       (fst (rect_position playerBounds) + fst (velocity p), snd (rect_position playerBounds))\<rparr>"

definition horizontalPass :: "Level \<Rightarrow> Player \<times> FloatRect \<Rightarrow> Player option" where
  "horizontalPass level s =
     (case s of (p, playerBounds) \<Rightarrow>
        (let leftTileH = leftTile (horizontalCheckBounds p playerBounds);
             rightTileH = rightTile (horizontalCheckBounds p playerBounds);
             topTileH = topTile playerBounds;
             bottomTileH = bottomTile playerBounds
         in horizontalLoop level leftTileH rightTileH [topTileH..bottomTileH] p))"

text \<open>\<^verbatim>\<open>Player::handleCollision\<close> (lines 137 to 229).\<close>

definition handleCollision :: "Level \<Rightarrow> Player \<Rightarrow> Player option" where
  "handleCollision level p0 =
     (let p = p0\<lparr>isOnGround := False\<rparr>;
          playerBounds = getGlobalBounds p
      in case verticalPass level (p, playerBounds) of
           None \<Rightarrow> None
         | Some s \<Rightarrow> horizontalPass level s)"

subsection \<open>Level bounds, position update, one tick\<close>

text \<open>
  \<^verbatim>\<open>Player::handleLevelBounds\<close> (lines 232 to 271): four \<^verbatim>\<open>if\<close> statements in a row, each
  testing the position read at entry (\<^verbatim>\<open>playerPos\<close>). The second component of the result
  is what the call prints on \<^verbatim>\<open>std::cout\<close>, one string for each line.
\<close>

definition handleLevelBounds :: "Level \<Rightarrow> Player \<Rightarrow> Player \<times> string list" where
  "handleLevelBounds level p0 =
     (let playerPos = position p0;
          playerHalfSize = (fst shape_getSize / 2, snd shape_getSize / 2);
          p1 = (if fst playerPos - fst playerHalfSize < 0
                then p0\<lparr>position := (fst playerHalfSize, snd playerPos),
                        velocity := (0, snd (velocity p0))\<rparr>
                else p0);
          p2 = (if fst playerPos + fst playerHalfSize > fst (sizePixels level)
                then p1\<lparr>position := (fst (sizePixels level) - fst playerHalfSize, snd playerPos),
                        velocity := (0, snd (velocity p1))\<rparr>
                else p1);
          p3 = (if snd playerPos - snd playerHalfSize < 0
                then p2\<lparr>position := (fst playerPos, snd playerHalfSize),
                        velocity := (fst (velocity p2), 0)\<rparr>
                else p2)
      in if snd playerPos + snd playerHalfSize > snd (sizePixels level)
         then (p3\<lparr>position := (real_of_int TILE_SIZE * (15 / 10),
                                 real_of_int TILE_SIZE * (real (snd (size_L level)) - 3)),
                    velocity := (0, 0),
                    isOnGround := False\<rparr>,
               [''Player fell out of bounds!''])
         else (p3, []))"

text \<open>\<^verbatim>\<open>Player::updatePosition\<close> (lines 276 to 280): \<^verbatim>\<open>shape.move(velocity)\<close>.\<close>

definition updatePosition :: "Player \<Rightarrow> Player" where
  "updatePosition p =
     p\<lparr>position := (fst (position p) + fst (velocity p), snd (position p) + snd (velocity p))\<rparr>"

text \<open>
  The update step of the game loop, lines 416 to 419 of \<^verbatim>\<open>main\<close>, with what it prints.
\<close>

definition tick :: "Level \<Rightarrow> Player \<Rightarrow> (Player \<times> string list) option" where
  "tick level p =
     (case handleCollision level (applyGravity p) of
        None \<Rightarrow> None
      | Some c \<Rightarrow>
          (case handleLevelBounds level c of
             (b, out) \<Rightarrow> Some (updatePosition b, out)))"

text \<open>
  The continuous input of the game loop, lines 406 to 412, from the state of the keys
  \<^verbatim>\<open>Left\<close> and \<^verbatim>\<open>Right\<close>: three assignments to \<^verbatim>\<open>velocity.x\<close> in a row.
\<close>

definition handleInput :: "bool \<Rightarrow> bool \<Rightarrow> Player \<Rightarrow> Player" where
  "handleInput leftPressed rightPressed p0 =
     (let p1 = p0\<lparr>velocity := (0, snd (velocity p0))\<rparr>;
          p2 = (if leftPressed
                then p1\<lparr>velocity := (- PLAYER_MOVE_SPEED, snd (velocity p1))\<rparr> else p1)
      in if rightPressed
         then p2\<lparr>velocity := (PLAYER_MOVE_SPEED, snd (velocity p2))\<rparr> else p2)"

text \<open>
  \<open>n\<close> iterations of the game loop with no key pressed and no event: the input step,
  then the update step. The output accumulates.
\<close>

fun ticks :: "nat \<Rightarrow> Level \<Rightarrow> Player \<Rightarrow> (Player \<times> string list) option" where
  "ticks 0 level p = Some (p, [])"
| "ticks (Suc n) level p =
     (case tick level (handleInput False False p) of
        None \<Rightarrow> None
      | Some (p', out) \<Rightarrow>
          (case ticks n level p' of
             None \<Rightarrow> None
           | Some (p'', out') \<Rightarrow> Some (p'', out @ out')))"

subsection \<open>Camera\<close>

text \<open>
  \<^verbatim>\<open>std::clamp(v, lo, hi)\<close>. The standard requires \<^verbatim>\<open>lo <= hi\<close>; lemma \<open>viewRange_ordered\<close>
  below shows that the game loop always calls it so.
\<close>

definition std_clamp :: "real \<Rightarrow> real \<Rightarrow> real \<Rightarrow> real" where
  "std_clamp v lo hi = (if v < lo then lo else if hi < v then hi else v)"

text \<open>
  Lines 430 to 441 for one axis: the least and greatest centre of the view, from the
  extent of the view and of the level on that axis.
\<close>

definition viewRange :: "real \<Rightarrow> real \<Rightarrow> real \<times> real" where
  "viewRange viewExtent levelExtent =
     (let minView = viewExtent / 2;
          maxView = levelExtent - viewExtent / 2
      in if levelExtent < viewExtent then (levelExtent / 2, levelExtent / 2)
         else (minView, maxView))"

text \<open>
  Lines 423 to 445: the centre that the game loop gives the view, from the view's size
  (\<^verbatim>\<open>gameView.getSize()\<close>), the level and the player.
\<close>

definition viewCenter :: "real \<times> real \<Rightarrow> Level \<Rightarrow> Player \<Rightarrow> real \<times> real" where
  "viewCenter viewSize level p =
     (case viewRange (fst viewSize) (fst (sizePixels level)) of (minViewX, maxViewX) \<Rightarrow>
      case viewRange (snd viewSize) (snd (sizePixels level)) of (minViewY, maxViewY) \<Rightarrow>
        (std_clamp (fst (position p)) minViewX maxViewX,
         std_clamp (snd (position p)) minViewY maxViewY))"

subsection \<open>The level and the player of the game\<close>

text \<open>
  \<^verbatim>\<open>createSimpleLevel\<close> (lines 286 to 315): a grid of 40 by 15 tiles of \<^verbatim>\<open>Air\<close>, then the
  assignments of \<^verbatim>\<open>Solid\<close>, in the order of the source. \<open>setSolid\<close> is the assignment
  \<^verbatim>\<open>level.tiles[y][x] = Solid\<close>, \<open>setRow\<close> and \<open>setColumn\<close> are the \<^verbatim>\<open>for\<close> loops over
  \<^verbatim>\<open>x\<close> and over \<^verbatim>\<open>y\<close>. Every index written is a constant within the 40 by 15
  grid, so no assignment is out of range.
\<close>

definition setSolid :: "nat \<Rightarrow> nat \<Rightarrow> TileType list list \<Rightarrow> TileType list list" where
  "setSolid y x t = t[y := (t ! y)[x := Solid]]"

definition setRow :: "nat \<Rightarrow> nat \<Rightarrow> nat \<Rightarrow> TileType list list \<Rightarrow> TileType list list" where
  "setRow y x0 x1 t = fold (setSolid y) [x0..<x1] t"

definition setColumn :: "nat \<Rightarrow> nat \<Rightarrow> nat \<Rightarrow> TileType list list \<Rightarrow> TileType list list" where
  "setColumn x y0 y1 t = fold (\<lambda>y. setSolid y x) [y0..<y1] t"

definition createSimpleLevel :: Level where
  "createSimpleLevel =
     (let sz = (40 :: nat, 15 :: nat);
          t0 = replicate (snd sz) (replicate (fst sz) Air);
          t1 = setRow (snd sz - 1) 0 (fst sz) t0;
          t2 = setRow 10 5 10 t1;
          t3 = setRow 8 12 16 t2;
          t4 = setSolid 6 15 t3;
          t5 = setSolid 6 16 t4;
          t6 = setRow 10 25 30 t5;
          t7 = setRow 7 32 36 t6;
          t8 = setSolid 12 21 t7;
          t9 = setSolid 12 22 t8;
          t10 = setColumn 2 11 (snd sz - 1) t9;
          t11 = setColumn 18 6 11 t10;
          t12 = setColumn 38 8 (snd sz - 1) t11
      in \<lparr>tiles = t12,
          size_L = sz,
          sizePixels = (real (fst sz) * real_of_int TILE_SIZE, real (snd sz) * real_of_int TILE_SIZE)\<rparr>)"

text \<open>The player that \<^verbatim>\<open>main\<close> creates (line 367) for a level.\<close>

definition startPlayer :: "Level \<Rightarrow> Player" where
  "startPlayer level =
     Player_new (real_of_int TILE_SIZE * (15 / 10),
                 real_of_int TILE_SIZE * (real (snd (size_L level)) - 3))"

subsection \<open>Vocabulary of the statements\<close>

text \<open>The four edges of a rectangle, in pixels.\<close>

definition leftEdge :: "FloatRect \<Rightarrow> real" where
  "leftEdge b = fst (rect_position b)"

definition rightEdge :: "FloatRect \<Rightarrow> real" where
  "rightEdge b = fst (rect_position b) + fst (rect_size b)"

definition topEdge :: "FloatRect \<Rightarrow> real" where
  "topEdge b = snd (rect_position b)"

definition bottomEdge :: "FloatRect \<Rightarrow> real" where
  "bottomEdge b = snd (rect_position b) + snd (rect_size b)"

text \<open>
  The pixel size of a level is its size in tiles times \<^verbatim>\<open>TILE_SIZE\<close>, as line 291
  computes it.
\<close>

definition pixels_ok :: "Level \<Rightarrow> bool" where
  "pixels_ok level \<longleftrightarrow>
     sizePixels level =
       (real (fst (size_L level)) * real_of_int TILE_SIZE,
        real (snd (size_L level)) * real_of_int TILE_SIZE)"

text \<open>
  The free fall of the start player: where it is after \<open>k\<close> iterations of the game loop
  in which nothing was hit and no boundary crossed. Lemma \<open>fall_run\<close> shows that this
  is what \<open>ticks\<close> computes.
\<close>

definition falling :: "Level \<Rightarrow> nat \<Rightarrow> Player" where
  "falling level k =
     \<lparr>position = (60, 40 * (real (snd (size_L level)) - 3) + 4 / 10 * real k * (real k + 1)),
      velocity = (0, 8 / 10 * real k),
      isOnGround = False\<rparr>"

section \<open>Auxiliary lemmas\<close>

subsection \<open>Reading the grid\<close>

lemma vector_at_Some: "i < length v \<Longrightarrow> vector_at v i = Some (v ! i)"
  by (simp add: vector_at_def)

lemma getTile_outside:
  "x < 0 \<or> int (fst (size_L level)) \<le> x \<or> y < 0 \<or> int (snd (size_L level)) \<le> y
   \<Longrightarrow> getTile level x y = Some Air"
  by (auto simp: getTile_def)

lemma getTile_defined:
  assumes "level_ok level"
  shows "\<exists>k. getTile level x y = Some k"
proof (cases "x \<ge> 0 \<and> x < int (fst (size_L level)) \<and> y \<ge> 0 \<and> y < int (snd (size_L level))")
  case True
  then have y: "nat y < length (tiles level)"
    using assms by (auto simp: level_ok_def)
  then have "tiles level ! nat y \<in> set (tiles level)"
    by simp
  then have "length (tiles level ! nat y) = fst (size_L level)"
    using assms by (simp add: level_ok_def list_all_iff)
  then have x: "nat x < length (tiles level ! nat y)"
    using True by auto
  show ?thesis
    using True x y by (simp add: getTile_def vector_at_Some)
next
  case False
  then have "getTile level x y = Some Air"
    unfolding getTile_def by (simp only: if_False)
  then show ?thesis by simp
qed

lemma andSolid_ok:
  "level_ok level \<Longrightarrow> andSolid c level x y = Some (c \<and> getTile level x y = Some Solid)"
  using getTile_defined [of level x y] by (auto simp: andSolid_def)

subsection \<open>The two scans\<close>

text \<open>
  In a rectangular level each loop returns, and what it returns depends only on whether
  one of the visited tiles is \<open>Solid\<close>: the first such tile ends the loop, and every
  such tile leads to the same player.
\<close>

lemma verticalLoop_falling:
  assumes "level_ok level" and "snd (velocity p) > 0"
  shows "verticalLoop level t b xs (p, pb) =
           Some (if \<exists>x \<in> set xs. getTile level x b = Some Solid
                 then (landOnTile b p, getGlobalBounds (landOnTile b p)) else (p, pb))"
  using assms by (induction xs) (auto simp: andSolid_ok split: bool.splits)

lemma verticalLoop_rising:
  assumes "level_ok level" and "snd (velocity p) < 0"
  shows "verticalLoop level t b xs (p, pb) =
           Some (if \<exists>x \<in> set xs. getTile level x t = Some Solid
                 then (hitCeiling t p, getGlobalBounds (hitCeiling t p)) else (p, pb))"
  using assms by (induction xs) (auto simp: andSolid_ok split: bool.splits)

lemma verticalLoop_still:
  assumes "snd (velocity p) = 0"
  shows "verticalLoop level t b xs (p, pb) = Some (p, pb)"
  using assms by (induction xs) (simp_all add: andSolid_def)

lemma horizontalLoop_right:
  assumes "level_ok level" and "fst (velocity p) > 0"
  shows "horizontalLoop level l r ys p =
           Some (if \<exists>y \<in> set ys. getTile level r y = Some Solid
                 then hitRightWall r p else p)"
  using assms by (induction ys) (auto simp: andSolid_ok split: bool.splits)

lemma horizontalLoop_left:
  assumes "level_ok level" and "fst (velocity p) < 0"
  shows "horizontalLoop level l r ys p =
           Some (if \<exists>y \<in> set ys. getTile level l y = Some Solid
                 then hitLeftWall l p else p)"
  using assms by (induction ys) (auto simp: andSolid_ok split: bool.splits)

lemma horizontalLoop_still:
  assumes "fst (velocity p) = 0"
  shows "horizontalLoop level l r ys p = Some p"
  using assms by (induction ys) (simp_all add: andSolid_def)

lemma horizontalLoop_frame:
  assumes "level_ok level"
  shows "\<exists>p'. horizontalLoop level l r ys p = Some p' \<and>
           snd (position p') = snd (position p) \<and>
           snd (velocity p') = snd (velocity p) \<and>
           isOnGround p' = isOnGround p"
proof -
  consider "fst (velocity p) > 0" | "fst (velocity p) < 0" | "fst (velocity p) = 0"
    by linarith
  then show ?thesis
  proof cases
    case 1
    then show ?thesis
      using assms by (simp add: horizontalLoop_right hitRightWall_def)
  next
    case 2
    then show ?thesis
      using assms by (simp add: horizontalLoop_left hitLeftWall_def)
  next
    case 3
    then show ?thesis
      by (simp add: horizontalLoop_still)
  qed
qed

subsection \<open>The two passes\<close>

lemma bounds_ignore_ground [simp]:
  "getGlobalBounds (p\<lparr>isOnGround := g\<rparr>) = getGlobalBounds p"
  "verticalCheckBounds (p\<lparr>isOnGround := g\<rparr>) pb = verticalCheckBounds p pb"
  by (simp_all add: getGlobalBounds_def verticalCheckBounds_def)

lemma verticalPass_falling:
  assumes "level_ok level" and "snd (velocity p) > 0"
  shows "verticalPass level (p, pb) =
           Some (if \<exists>x \<in> {leftTile (verticalCheckBounds p pb) .. rightTile (verticalCheckBounds p pb)}.
                      getTile level x (bottomTile (verticalCheckBounds p pb)) = Some Solid
                 then (landOnTile (bottomTile (verticalCheckBounds p pb)) p,
                       getGlobalBounds (landOnTile (bottomTile (verticalCheckBounds p pb)) p))
                 else (p, pb))"
  using assms by (simp add: verticalPass_def Let_def verticalLoop_falling)

lemma verticalPass_not_falling:
  assumes "level_ok level" and "\<not> snd (velocity p) > 0"
  shows "\<exists>q qb. verticalPass level (p, pb) = Some (q, qb) \<and> isOnGround q = isOnGround p"
proof (cases "snd (velocity p) < 0")
  case True
  then show ?thesis
    using assms by (simp add: verticalPass_def Let_def verticalLoop_rising hitCeiling_def)
next
  case False
  with assms have "snd (velocity p) = 0" by simp
  then show ?thesis
    by (simp add: verticalPass_def Let_def verticalLoop_still)
qed

lemma horizontalPass_frame:
  assumes "level_ok level"
  shows "\<exists>p'. horizontalPass level (q, qb) = Some p' \<and>
           snd (position p') = snd (position q) \<and>
           snd (velocity p') = snd (velocity q) \<and>
           isOnGround p' = isOnGround q"
  using horizontalLoop_frame [OF assms] by (simp add: horizontalPass_def Let_def)

text \<open>
  The variable \<^verbatim>\<open>playerBounds\<close> holds the bounds of the shape whenever the horizontal check
  starts, and \<open>handleCollision\<close> is the horizontal pass run on the result of the vertical
  pass.
\<close>

lemma verticalPass_bounds:
  assumes "level_ok level"
  shows "\<exists>q. verticalPass level (p, getGlobalBounds p) = Some (q, getGlobalBounds q)"
proof -
  consider "snd (velocity p) > 0" | "snd (velocity p) < 0" | "snd (velocity p) = 0"
    by linarith
  then show ?thesis
  proof cases
    case 1
    then show ?thesis
      using assms by (simp add: verticalPass_def Let_def verticalLoop_falling)
  next
    case 2
    then show ?thesis
      using assms by (simp add: verticalPass_def Let_def verticalLoop_rising)
  next
    case 3
    then show ?thesis
      by (simp add: verticalPass_def Let_def verticalLoop_still)
  qed
qed

lemma handleCollision_passes:
  assumes "level_ok level"
  shows "\<exists>q. verticalPass level (p\<lparr>isOnGround := False\<rparr>, getGlobalBounds p)
                = Some (q, getGlobalBounds q) \<and>
             handleCollision level p = horizontalPass level (q, getGlobalBounds q)"
proof -
  obtain q where "verticalPass level (p\<lparr>isOnGround := False\<rparr>,
      getGlobalBounds (p\<lparr>isOnGround := False\<rparr>)) = Some (q, getGlobalBounds q)"
    using verticalPass_bounds [OF assms] by blast
  then show ?thesis
    by (simp add: handleCollision_def Let_def)
qed

lemma handleCollision_defined:
  assumes "level_ok level"
  shows "\<exists>c. handleCollision level p = Some c"
proof -
  let ?p = "p\<lparr>isOnGround := False\<rparr>"
  have "\<exists>q qb. verticalPass level (?p, getGlobalBounds ?p) = Some (q, qb)"
  proof (cases "snd (velocity ?p) > 0")
    case True
    show ?thesis
      unfolding verticalPass_falling [OF assms True] by simp
  next
    case False
    then show ?thesis
      using verticalPass_not_falling [OF assms False, of "getGlobalBounds ?p"] by blast
  qed
  then obtain q qb where "verticalPass level (?p, getGlobalBounds ?p) = Some (q, qb)"
    by blast
  moreover obtain c where "horizontalPass level (q, qb) = Some c"
    using horizontalPass_frame [OF assms] by blast
  ultimately show ?thesis
    by (simp add: handleCollision_def Let_def)
qed

subsection \<open>The level of the game\<close>

lemma createSimpleLevel_ok: "level_ok createSimpleLevel"
  by code_simp

subsection \<open>The range of the view\<close>

lemma viewRange_ordered: "fst (viewRange v l) \<le> snd (viewRange v l)"
  by (simp add: viewRange_def Let_def)

subsection \<open>Free fall\<close>

text \<open>
  A player in column 1 that moves straight down, in a level whose column 1 has no
  \<open>Solid\<close> tile, hits nothing; \<open>falling\<close> is the orbit of the start player under the
  game loop for as long as its box is within the level, and the iteration after the
  16th resets it.
\<close>

lemma ticks_add:
  "ticks (m + n) level p =
     (case ticks m level p of
        None \<Rightarrow> None
      | Some (q, out) \<Rightarrow>
          (case ticks n level q of
             None \<Rightarrow> None
           | Some (r, out') \<Rightarrow> Some (r, out @ out')))"
  by (induction m arbitrary: p) (simp_all split: option.splits prod.splits)

lemma free_fall_collision:
  assumes air: "\<forall>y. getTile level 1 y = Some Air"
    and x: "fst (position p) = 60" and vx: "fst (velocity p) = 0" and vy: "snd (velocity p) > 0"
  shows "handleCollision level p = Some (p\<lparr>isOnGround := False\<rparr>)"
proof -
  let ?p = "p\<lparr>isOnGround := False\<rparr>"
  let ?vb = "verticalCheckBounds p (getGlobalBounds p)"
  have l: "leftTile ?vb = 1" and r: "rightTile ?vb = 1"
    using x
    by (simp_all add: leftTile_def rightTile_def verticalCheckBounds_def getGlobalBounds_def
        shape_getOrigin_def shape_getSize_def TILE_SIZE_def COLLISION_EPSILON_def
        static_cast_int_def)
  have "verticalPass level (?p, getGlobalBounds ?p) = Some (?p, getGlobalBounds ?p)"
    using air vy by (simp add: verticalPass_def Let_def l r andSolid_def)
  moreover have "horizontalPass level (?p, getGlobalBounds ?p) = Some ?p"
    using vx by (simp add: horizontalPass_def Let_def horizontalLoop_still)
  ultimately show ?thesis
    by (simp add: handleCollision_def Let_def)
qed

lemma falling_0: "falling level 0 = startPlayer level"
  by (simp add: falling_def startPlayer_def Player_new_def TILE_SIZE_def)

lemma fall_depth:
  assumes "k \<le> 15"
  shows "4 / 10 * real k * (real k + 1) \<le> 96"
proof -
  have "k * (k + 1) \<le> 15 * 16"
    using assms by (intro mult_le_mono) simp_all
  then have "real (k * (k + 1)) \<le> 240"
    by linarith
  moreover have "real (k * (k + 1)) = real k * (real k + 1)"
    by (simp add: algebra_simps)
  ultimately have "real k * (real k + 1) \<le> 240"
    by (simp only:)
  then show ?thesis
    by linarith
qed

lemma fall_step:
  assumes air: "\<forall>y. getTile level 1 y = Some Air"
    and px: "pixels_ok level"
    and w: "2 \<le> fst (size_L level)" and h: "4 \<le> snd (size_L level)"
    and k: "k \<le> 15"
  shows "tick level (handleInput False False (falling level k)) = Some (falling level (Suc k), [])"
proof -
  let ?g = "applyGravity (handleInput False False (falling level k))"
  define d where "d = 4 / 10 * real k * (real k + 1)"
  have d: "d \<le> 96"
    unfolding d_def by (rule fall_depth [OF k])
  have g: "?g = \<lparr>position = (60, 40 * (real (snd (size_L level)) - 3) + d),
                  velocity = (0, 8 / 10 * real k + 8 / 10), isOnGround = False\<rparr>"
    by (simp add: applyGravity_def handleInput_def falling_def GRAVITY_def Let_def d_def)
  have c: "handleCollision level ?g = Some ?g"
    using free_fall_collision [OF air, of ?g] by (simp add: g)
  have W: "80 \<le> fst (sizePixels level)"
    and H: "snd (sizePixels level) = 40 * real (snd (size_L level))"
    using px w by (simp_all add: pixels_ok_def TILE_SIZE_def)
  have H4: "160 \<le> 40 * real (snd (size_L level))"
    using h by simp
  have d0: "0 \<le> d"
    unfolding d_def by simp
  have b: "handleLevelBounds level ?g = (?g, [])"
    using W H H4 d d0
    by (simp add: g handleLevelBounds_def Let_def shape_getSize_def TILE_SIZE_def)
  have "updatePosition ?g = falling level (Suc k)"
    unfolding g by (simp add: updatePosition_def falling_def d_def field_simps)
  then show ?thesis
    by (simp add: tick_def c b)
qed

lemma fall_run:
  assumes air: "\<forall>y. getTile level 1 y = Some Air"
    and px: "pixels_ok level"
    and w: "2 \<le> fst (size_L level)" and h: "4 \<le> snd (size_L level)"
  shows "k + n \<le> 16 \<Longrightarrow> ticks n level (falling level k) = Some (falling level (k + n), [])"
proof (induction n arbitrary: k)
  case 0
  then show ?case by simp
next
  case (Suc n)
  then have "k \<le> 15" and "Suc k + n \<le> 16"
    by simp_all
  then show ?case
    using fall_step [OF air px w h, of k] Suc.IH [of "Suc k"] by simp
qed

lemma fall_reset:
  assumes air: "\<forall>y. getTile level 1 y = Some Air"
    and px: "pixels_ok level"
  shows "tick level (handleInput False False (falling level 16))
           = Some (startPlayer level, [''Player fell out of bounds!''])"
proof -
  let ?g = "applyGravity (handleInput False False (falling level 16))"
  have g: "?g = \<lparr>position = (60, 40 * (real (snd (size_L level)) - 3) + 544 / 5),
                  velocity = (0, 68 / 5), isOnGround = False\<rparr>"
    by (simp add: applyGravity_def handleInput_def falling_def GRAVITY_def Let_def)
  have c: "handleCollision level ?g = Some ?g"
    using free_fall_collision [OF air, of ?g] by (simp add: g)
  have H: "snd (sizePixels level) = 40 * real (snd (size_L level))"
    using px by (simp_all add: pixels_ok_def TILE_SIZE_def)
  have b: "handleLevelBounds level ?g =
      (\<lparr>position = (60, 40 * (real (snd (size_L level)) - 3)), velocity = (0, 0),
        isOnGround = False\<rparr>, [''Player fell out of bounds!''])"
    using H
    by (simp add: g handleLevelBounds_def Let_def shape_getSize_def TILE_SIZE_def)
  show ?thesis
    by (simp add: tick_def c b updatePosition_def startPlayer_def Player_new_def TILE_SIZE_def)
qed

section \<open>Properties of the program\<close>

subsection \<open>The tile query\<close>

text \<open>
  Claim C8. \<open>getTile\<close> answers \<open>Air\<close> for every pair of integers outside
  \<open>[0, width) \<times> [0, height)\<close>, in every level: nothing is assumed of the level, so the
  grid of 0 by 0 tiles and a grid whose vectors are shorter than \<open>size_L\<close> says are
  included; the vectors are not read there. In a rectangular level the query returns a
  tile for every pair of integers. The function has no other result than the tile: the
  level is not changed.
\<close>

theorem getTile_outside_is_Air:
  "(x < 0 \<or> int (fst (size_L level)) \<le> x \<or> y < 0 \<or> int (snd (size_L level)) \<le> y
      \<longrightarrow> getTile level x y = Some Air) \<and>
   (level_ok level \<longrightarrow> (\<exists>k. getTile level x y = Some k))"
  using getTile_outside [of x level y] getTile_defined [of level x y] by blast

theorem getTile_outside_is_Air_witness:
  "int (fst (size_L \<lparr>tiles = [], size_L = (0, 0), sizePixels = (0, 0)\<rparr>)) \<le> 0 \<and>
   level_ok \<lparr>tiles = [], size_L = (0, 0), sizePixels = (0, 0)\<rparr> \<and>
   getTile \<lparr>tiles = [], size_L = (0, 0), sizePixels = (0, 0)\<rparr> 0 0 = Some Air \<and>
   (\<exists>k. getTile \<lparr>tiles = [], size_L = (0, 0), sizePixels = (0, 0)\<rparr> 0 0 = Some k)"
proof -
  let ?l = "\<lparr>tiles = [], size_L = (0, 0), sizePixels = (0, 0)\<rparr>"
  have out: "int (fst (size_L ?l)) \<le> 0"
    by simp
  have ok: "level_ok ?l"
    by (simp add: level_ok_def)
  from getTile_outside_is_Air [of 0 ?l 0] out ok
  have "getTile ?l 0 0 = Some Air" and "\<exists>k. getTile ?l 0 0 = Some k"
    by blast+
  with out ok show ?thesis
    by blast
qed

subsection \<open>Jumping\<close>

text \<open>
  Claim C5. Called on the ground, \<open>jump\<close> sets the vertical velocity to
  \<open>PLAYER_JUMP_VELOCITY\<close>, which is negative, and clears \<open>isOnGround\<close>, leaving the
  position and the horizontal velocity as they are. Called in the air it returns the
  player unchanged. So a second call right after the first changes nothing.
\<close>

theorem jump_only_on_ground:
  "(isOnGround p \<longrightarrow>
      snd (velocity (jump p)) = PLAYER_JUMP_VELOCITY \<and> PLAYER_JUMP_VELOCITY < 0 \<and>
      \<not> isOnGround (jump p) \<and>
      position (jump p) = position p \<and> fst (velocity (jump p)) = fst (velocity p)) \<and>
   (\<not> isOnGround p \<longrightarrow> jump p = p) \<and>
   jump (jump p) = jump p"
  by (simp add: jump_def PLAYER_JUMP_VELOCITY_def)

theorem jump_only_on_ground_witness:
  "isOnGround \<lparr>position = (60, 541), velocity = (5, 0), isOnGround = True\<rparr> \<and>
   velocity (jump \<lparr>position = (60, 541), velocity = (5, 0), isOnGround = True\<rparr>) = (5, - 18) \<and>
   \<not> isOnGround (jump \<lparr>position = (60, 541), velocity = (5, 0), isOnGround = True\<rparr>) \<and>
   \<not> isOnGround \<lparr>position = (60, 500), velocity = (5, - 3), isOnGround = False\<rparr> \<and>
   jump \<lparr>position = (60, 500), velocity = (5, - 3), isOnGround = False\<rparr> =
     \<lparr>position = (60, 500), velocity = (5, - 3), isOnGround = False\<rparr>"
proof -
  let ?g = "\<lparr>position = (60, 541), velocity = (5, 0), isOnGround = True\<rparr>"
  let ?a = "\<lparr>position = (60, 500), velocity = (5, - 3), isOnGround = False\<rparr>"
  have g: "isOnGround ?g" and a: "\<not> isOnGround ?a"
    by simp_all
  from jump_only_on_ground [of ?g] g
  have "snd (velocity (jump ?g)) = PLAYER_JUMP_VELOCITY" and "\<not> isOnGround (jump ?g)"
    and "fst (velocity (jump ?g)) = fst (velocity ?g)"
    by blast+
  then have 1: "velocity (jump ?g) = (5, - 18)" and 2: "\<not> isOnGround (jump ?g)"
    by (simp_all add: PLAYER_JUMP_VELOCITY_def prod_eq_iff)
  from jump_only_on_ground [of ?a] a have 3: "jump ?a = ?a"
    by blast
  from g a 1 2 3 show ?thesis
    by blast
qed

subsection \<open>The grounded flag\<close>

text \<open>
  Claim C9. In a rectangular level collision resolution returns, and the player it
  returns is on the ground exactly when the player was moving down and one of the
  scanned columns has a \<open>Solid\<close> tile in the predicted bottom row, which is the
  condition of the landing branch. The flag at entry has no influence: the call clears
  it first.
\<close>

theorem grounded_iff_landed:
  assumes "level_ok level"
  shows "\<exists>p'. handleCollision level p = Some p' \<and>
           (isOnGround p' \<longleftrightarrow>
              snd (velocity p) > 0 \<and>
              (\<exists>x \<in> {leftTile (verticalCheckBounds p (getGlobalBounds p)) ..
                       rightTile (verticalCheckBounds p (getGlobalBounds p))}.
                 getTile level x (bottomTile (verticalCheckBounds p (getGlobalBounds p)))
                   = Some Solid)) \<and>
         handleCollision level (p\<lparr>isOnGround := g\<rparr>) = handleCollision level p"
proof -
  have "handleCollision level (p\<lparr>isOnGround := g\<rparr>) = handleCollision level p"
    by (simp add: handleCollision_def)
  moreover have "\<exists>p'. handleCollision level p = Some p' \<and>
           (isOnGround p' \<longleftrightarrow>
              snd (velocity p) > 0 \<and>
              (\<exists>x \<in> {leftTile (verticalCheckBounds p (getGlobalBounds p)) ..
                       rightTile (verticalCheckBounds p (getGlobalBounds p))}.
                 getTile level x (bottomTile (verticalCheckBounds p (getGlobalBounds p)))
                   = Some Solid))"
  proof (cases "snd (velocity p) > 0")
    case True
    let ?p = "p\<lparr>isOnGround := False\<rparr>"
    let ?vb = "verticalCheckBounds p (getGlobalBounds p)"
    from True have v: "snd (velocity ?p) > 0" by simp
    show ?thesis
    proof (cases "\<exists>x \<in> {leftTile ?vb .. rightTile ?vb}. getTile level x (bottomTile ?vb) = Some Solid")
      case hit: True
      obtain p' where "horizontalPass level (landOnTile (bottomTile ?vb) ?p,
                          getGlobalBounds (landOnTile (bottomTile ?vb) ?p)) = Some p'"
        and "isOnGround p' = isOnGround (landOnTile (bottomTile ?vb) ?p)"
        using horizontalPass_frame [OF assms] by blast
      then show ?thesis
        using True hit
        by (simp add: handleCollision_def Let_def verticalPass_falling [OF assms v] landOnTile_def)
    next
      case miss: False
      obtain p' where "horizontalPass level (?p, getGlobalBounds p) = Some p'"
        and "isOnGround p' = isOnGround ?p"
        using horizontalPass_frame [OF assms] by blast
      then show ?thesis
        using True miss
        by (simp add: handleCollision_def Let_def verticalPass_falling [OF assms v])
    qed
  next
    case False
    let ?p = "p\<lparr>isOnGround := False\<rparr>"
    from False have "\<not> snd (velocity ?p) > 0" by simp
    from verticalPass_not_falling [OF assms this]
    obtain q qb where q: "verticalPass level (?p, getGlobalBounds p) = Some (q, qb)"
      and g: "isOnGround q = isOnGround ?p"
      by blast
    obtain p' where "horizontalPass level (q, qb) = Some p'" and "isOnGround p' = isOnGround q"
      using horizontalPass_frame [OF assms] by blast
    then show ?thesis
      using False q g by (simp add: handleCollision_def Let_def)
  qed
  ultimately show ?thesis
    by blast
qed

theorem grounded_iff_landed_witness:
  "level_ok createSimpleLevel \<and>
   (\<exists>p'. handleCollision createSimpleLevel
            \<lparr>position = (60, 530), velocity = (0, 12), isOnGround = False\<rparr> = Some p' \<and>
          isOnGround p')"
proof -
  let ?p = "\<lparr>position = (60, 530), velocity = (0, 12), isOnGround = False\<rparr>"
  let ?vb = "verticalCheckBounds ?p (getGlobalBounds ?p)"
  have ok: "level_ok createSimpleLevel"
    by code_simp
  have tiles: "leftTile ?vb = 1" "rightTile ?vb = 1" "bottomTile ?vb = 14"
    by code_simp+
  have "getTile createSimpleLevel 1 14 = Some Solid"
    by code_simp
  with tiles have hit: "\<exists>x \<in> {leftTile ?vb .. rightTile ?vb}.
      getTile createSimpleLevel x (bottomTile ?vb) = Some Solid"
    by simp
  have v: "snd (velocity ?p) > 0"
    by simp
  from grounded_iff_landed [OF ok, of ?p] hit v ok show ?thesis
    by blast
qed

subsection \<open>Landing\<close>




subsection \<open>Walls\<close>

text \<open>
  Claim C6. The horizontal pass, run on a player and its bounds in a rectangular level.
  Moving right, with a \<open>Solid\<close> tile in the predicted right column in one of the rows of
  the box: the player returned has its right edge on the left edge of that column and
  horizontal velocity 0. Moving left, with a \<open>Solid\<close> tile in the predicted left
  column: the left edge is on the right edge of that column and the horizontal
  velocity is 0. In every case the pass returns and keeps the vertical velocity, the
  vertical position and the grounded flag. By lemma \<open>handleCollision_passes\<close> this is
  the pass that ends every call of \<open>handleCollision\<close>, run on the player that the
  vertical pass left and on the bounds of that player.
\<close>

theorem wall_stops_at_column:
  assumes ok: "level_ok level"
  shows "(fst (velocity p) > 0 \<and>
            (\<exists>y \<in> {topTile (getGlobalBounds p) .. bottomTile (getGlobalBounds p)}.
               getTile level (rightTile (horizontalCheckBounds p (getGlobalBounds p))) y
                 = Some Solid)
          \<longrightarrow> (\<exists>p'. horizontalPass level (p, getGlobalBounds p) = Some p' \<and>
                 rightEdge (getGlobalBounds p') =
                   real_of_int (rightTile (horizontalCheckBounds p (getGlobalBounds p)))
                     * real_of_int TILE_SIZE \<and>
                 fst (velocity p') = 0 \<and> snd (velocity p') = snd (velocity p))) \<and>
         (fst (velocity p) < 0 \<and>
            (\<exists>y \<in> {topTile (getGlobalBounds p) .. bottomTile (getGlobalBounds p)}.
               getTile level (leftTile (horizontalCheckBounds p (getGlobalBounds p))) y
                 = Some Solid)
          \<longrightarrow> (\<exists>p'. horizontalPass level (p, getGlobalBounds p) = Some p' \<and>
                 leftEdge (getGlobalBounds p') =
                   real_of_int (leftTile (horizontalCheckBounds p (getGlobalBounds p)) + 1)
                     * real_of_int TILE_SIZE \<and>
                 fst (velocity p') = 0 \<and> snd (velocity p') = snd (velocity p))) \<and>
         (\<exists>p'. horizontalPass level (p, getGlobalBounds p) = Some p' \<and>
                snd (velocity p') = snd (velocity p) \<and>
                snd (position p') = snd (position p) \<and>
                isOnGround p' = isOnGround p)"
proof (intro conjI impI)
  assume a: "fst (velocity p) > 0 \<and>
            (\<exists>y \<in> {topTile (getGlobalBounds p) .. bottomTile (getGlobalBounds p)}.
               getTile level (rightTile (horizontalCheckBounds p (getGlobalBounds p))) y
                 = Some Solid)"
  then have "horizontalPass level (p, getGlobalBounds p) =
      Some (hitRightWall (rightTile (horizontalCheckBounds p (getGlobalBounds p))) p)"
    using ok by (simp add: horizontalPass_def Let_def horizontalLoop_right)
  then show "\<exists>p'. horizontalPass level (p, getGlobalBounds p) = Some p' \<and>
                 rightEdge (getGlobalBounds p') =
                   real_of_int (rightTile (horizontalCheckBounds p (getGlobalBounds p)))
                     * real_of_int TILE_SIZE \<and>
                 fst (velocity p') = 0 \<and> snd (velocity p') = snd (velocity p)"
    by (simp add: hitRightWall_def rightEdge_def getGlobalBounds_def shape_getOrigin_def)
next
  assume a: "fst (velocity p) < 0 \<and>
            (\<exists>y \<in> {topTile (getGlobalBounds p) .. bottomTile (getGlobalBounds p)}.
               getTile level (leftTile (horizontalCheckBounds p (getGlobalBounds p))) y
                 = Some Solid)"
  then have "horizontalPass level (p, getGlobalBounds p) =
      Some (hitLeftWall (leftTile (horizontalCheckBounds p (getGlobalBounds p))) p)"
    using ok by (simp add: horizontalPass_def Let_def horizontalLoop_left)
  then show "\<exists>p'. horizontalPass level (p, getGlobalBounds p) = Some p' \<and>
                 leftEdge (getGlobalBounds p') =
                   real_of_int (leftTile (horizontalCheckBounds p (getGlobalBounds p)) + 1)
                     * real_of_int TILE_SIZE \<and>
                 fst (velocity p') = 0 \<and> snd (velocity p') = snd (velocity p)"
    by (simp add: hitLeftWall_def leftEdge_def getGlobalBounds_def shape_getOrigin_def)
next
  show "\<exists>p'. horizontalPass level (p, getGlobalBounds p) = Some p' \<and>
                snd (velocity p') = snd (velocity p) \<and>
                snd (position p') = snd (position p) \<and>
                isOnGround p' = isOnGround p"
    using horizontalPass_frame [OF ok, of p "getGlobalBounds p"] by blast
qed

theorem wall_stops_at_column_witness:
  "level_ok createSimpleLevel \<and>
   (\<exists>p'. horizontalPass createSimpleLevel
            (\<lparr>position = (60, 541), velocity = (5, 0), isOnGround = True\<rparr>,
             getGlobalBounds \<lparr>position = (60, 541), velocity = (5, 0), isOnGround = True\<rparr>)
            = Some p' \<and>
          rightEdge (getGlobalBounds p') = 80 \<and> velocity p' = (0, 0)) \<and>
   (\<exists>p'. horizontalPass createSimpleLevel
            (\<lparr>position = (140, 541), velocity = (- 5, 0), isOnGround = True\<rparr>,
             getGlobalBounds \<lparr>position = (140, 541), velocity = (- 5, 0), isOnGround = True\<rparr>)
            = Some p' \<and>
          leftEdge (getGlobalBounds p') = 120 \<and> velocity p' = (0, 0))"
proof -
  let ?r = "\<lparr>position = (60, 541), velocity = (5, 0), isOnGround = True\<rparr>"
  let ?l = "\<lparr>position = (140, 541), velocity = (- 5, 0), isOnGround = True\<rparr>"
  have ok: "level_ok createSimpleLevel"
    by (rule createSimpleLevel_ok)
  have wall: "getTile createSimpleLevel 2 13 = Some Solid"
    by code_simp
  have rows_r: "topTile (getGlobalBounds ?r) = 13" "bottomTile (getGlobalBounds ?r) = 13"
    and col_r: "rightTile (horizontalCheckBounds ?r (getGlobalBounds ?r)) = 2"
    by code_simp+
  have rows_l: "topTile (getGlobalBounds ?l) = 13" "bottomTile (getGlobalBounds ?l) = 13"
    and col_l: "leftTile (horizontalCheckBounds ?l (getGlobalBounds ?l)) = 2"
    by code_simp+
  have hyp_r: "fst (velocity ?r) > 0 \<and>
      (\<exists>y \<in> {topTile (getGlobalBounds ?r) .. bottomTile (getGlobalBounds ?r)}.
         getTile createSimpleLevel (rightTile (horizontalCheckBounds ?r (getGlobalBounds ?r))) y
           = Some Solid)"
    using wall by (simp add: rows_r col_r)
  have hyp_l: "fst (velocity ?l) < 0 \<and>
      (\<exists>y \<in> {topTile (getGlobalBounds ?l) .. bottomTile (getGlobalBounds ?l)}.
         getTile createSimpleLevel (leftTile (horizontalCheckBounds ?l (getGlobalBounds ?l))) y
           = Some Solid)"
    using wall by (simp add: rows_l col_l)
  from wall_stops_at_column [OF ok, of ?r] hyp_r
  obtain a where a: "horizontalPass createSimpleLevel (?r, getGlobalBounds ?r) = Some a"
    and "rightEdge (getGlobalBounds a) =
           real_of_int (rightTile (horizontalCheckBounds ?r (getGlobalBounds ?r)))
             * real_of_int TILE_SIZE"
    and "fst (velocity a) = 0" and "snd (velocity a) = snd (velocity ?r)"
    by blast
  then have a': "rightEdge (getGlobalBounds a) = 80" "velocity a = (0, 0)"
    by (simp_all add: col_r TILE_SIZE_def prod_eq_iff)
  from wall_stops_at_column [OF ok, of ?l] hyp_l
  obtain b where b: "horizontalPass createSimpleLevel (?l, getGlobalBounds ?l) = Some b"
    and "leftEdge (getGlobalBounds b) =
           real_of_int (leftTile (horizontalCheckBounds ?l (getGlobalBounds ?l)) + 1)
             * real_of_int TILE_SIZE"
    and "fst (velocity b) = 0" and "snd (velocity b) = snd (velocity ?l)"
    by blast
  then have b': "leftEdge (getGlobalBounds b) = 120" "velocity b = (0, 0)"
    by (simp_all add: col_l TILE_SIZE_def prod_eq_iff)
  from ok a a' b b' show ?thesis
    by blast
qed

subsection \<open>Level bounds\<close>

text \<open>
  Claim C3 fails on the code where the left and the top boundary are crossed at once.
  Each of the four tests of \<open>handleLevelBounds\<close> sets the position from \<^verbatim>\<open>playerPos\<close>, the
  position read at entry, so the clamp at the top writes the old \<^verbatim>\<open>x\<close> back. In the level
  of the game a player at (10, 10), whose box reaches from -6 to 26 horizontally and
  from -9 to 29 vertically, comes out at (10, 19): both velocity components are zeroed
  and the top edge is at 0, but the left edge is still at -6.
\<close>

theorem bounds_clamp_undone_at_corner:
  "handleLevelBounds createSimpleLevel
     \<lparr>position = (10, 10), velocity = (- 5, - 3), isOnGround = False\<rparr>
     = (\<lparr>position = (10, 19), velocity = (0, 0), isOnGround = False\<rparr>, []) \<and>
   leftEdge (getGlobalBounds \<lparr>position = (10, 19), velocity = (0, 0), isOnGround = False\<rparr>) = - 6"
  by code_simp

text \<open>
  Claim C10. When the bottom edge of the box is below the level, the player that
  \<open>handleLevelBounds\<close> returns is the player that \<^verbatim>\<open>main\<close> created for this level:
  position \<open>(1.5 * TILE_SIZE, (height - 3) * TILE_SIZE)\<close>, velocity zero, not on the
  ground.
\<close>

theorem reset_returns_to_start:
  assumes "bottomEdge (getGlobalBounds p) > snd (sizePixels level)"
  shows "fst (handleLevelBounds level p) = startPlayer level \<and>
         position (startPlayer level) =
           (15 / 10 * real_of_int TILE_SIZE,
            (real (snd (size_L level)) - 3) * real_of_int TILE_SIZE)"
  using assms
  by (simp add: handleLevelBounds_def Let_def startPlayer_def Player_new_def bottomEdge_def
      getGlobalBounds_def shape_getOrigin_def)

theorem reset_returns_to_start_witness:
  "bottomEdge (getGlobalBounds \<lparr>position = (300, 590), velocity = (5, 20), isOnGround = False\<rparr>)
     > snd (sizePixels createSimpleLevel) \<and>
   fst (handleLevelBounds createSimpleLevel
          \<lparr>position = (300, 590), velocity = (5, 20), isOnGround = False\<rparr>)
     = startPlayer createSimpleLevel \<and>
   position (startPlayer createSimpleLevel) = (60, 480)"
proof -
  let ?p = "\<lparr>position = (300, 590), velocity = (5, 20), isOnGround = False\<rparr>"
  have h: "bottomEdge (getGlobalBounds ?p) > snd (sizePixels createSimpleLevel)"
    by code_simp
  have "(15 / 10 * real_of_int TILE_SIZE,
         (real (snd (size_L createSimpleLevel)) - 3) * real_of_int TILE_SIZE) = (60, 480)"
    by code_simp
  with reset_returns_to_start [OF h] h show ?thesis
    by simp
qed

subsection \<open>Camera\<close>

text \<open>
  Claim C7, for each axis. Where the level is at least as large as the view, the centre
  of the view is the position of the player clamped to
  \<open>[view / 2, level - view / 2]\<close>, and the view, from \<open>centre - view / 2\<close> to
  \<open>centre + view / 2\<close>, lies within \<open>[0, level]\<close>. Where the level is at most as large
  as the view, which includes the case of equal extents, the centre is \<open>level / 2\<close>
  wherever the player is.
\<close>

theorem camera_center_clamped:
  "(fst (sizePixels level) \<ge> fst viewSize \<longrightarrow>
      fst (viewCenter viewSize level p) =
        std_clamp (fst (position p)) (fst viewSize / 2) (fst (sizePixels level) - fst viewSize / 2) \<and>
      0 \<le> fst (viewCenter viewSize level p) - fst viewSize / 2 \<and>
      fst (viewCenter viewSize level p) + fst viewSize / 2 \<le> fst (sizePixels level)) \<and>
   (snd (sizePixels level) \<ge> snd viewSize \<longrightarrow>
      snd (viewCenter viewSize level p) =
        std_clamp (snd (position p)) (snd viewSize / 2) (snd (sizePixels level) - snd viewSize / 2) \<and>
      0 \<le> snd (viewCenter viewSize level p) - snd viewSize / 2 \<and>
      snd (viewCenter viewSize level p) + snd viewSize / 2 \<le> snd (sizePixels level)) \<and>
   (fst (sizePixels level) \<le> fst viewSize \<longrightarrow>
      fst (viewCenter viewSize level p) = fst (sizePixels level) / 2) \<and>
   (snd (sizePixels level) \<le> snd viewSize \<longrightarrow>
      snd (viewCenter viewSize level p) = snd (sizePixels level) / 2)"
  by (auto simp: viewCenter_def viewRange_def std_clamp_def Let_def split: prod.splits)

theorem camera_center_clamped_witness:
  "fst (sizePixels createSimpleLevel) \<ge> fst (800 :: real, 600 :: real) \<and>
   snd (sizePixels createSimpleLevel) \<ge> snd (800 :: real, 600 :: real) \<and>
   snd (sizePixels createSimpleLevel) \<le> snd (800 :: real, 600 :: real) \<and>
   viewCenter (800, 600) createSimpleLevel
     \<lparr>position = (60, 541), velocity = (0, 0), isOnGround = True\<rparr> = (400, 300) \<and>
   snd (viewCenter (800, 600) createSimpleLevel
          \<lparr>position = (60, 541), velocity = (0, 0), isOnGround = True\<rparr>) + 600 / 2
     \<le> snd (sizePixels createSimpleLevel) \<and>
   fst (sizePixels \<lparr>tiles = [[Solid, Solid, Solid]], size_L = (3, 1), sizePixels = (120, 40)\<rparr>)
     \<le> fst (800 :: real, 600 :: real) \<and>
   fst (viewCenter (800, 600)
          \<lparr>tiles = [[Solid, Solid, Solid]], size_L = (3, 1), sizePixels = (120, 40)\<rparr>
          \<lparr>position = (100, 19), velocity = (0, 0), isOnGround = True\<rparr>) = 60"
proof -
  let ?p = "\<lparr>position = (60, 541), velocity = (0, 0), isOnGround = True\<rparr>"
  let ?q = "\<lparr>position = (100, 19), velocity = (0, 0), isOnGround = True\<rparr>"
  let ?s = "\<lparr>tiles = [[Solid, Solid, Solid]], size_L = (3, 1), sizePixels = (120, 40)\<rparr>"
  let ?v = "(800 :: real, 600 :: real)"
  have px: "sizePixels createSimpleLevel = (1600, 600)"
    by code_simp
  have wide: "fst (sizePixels createSimpleLevel) \<ge> fst ?v"
    and high: "snd (sizePixels createSimpleLevel) \<ge> snd ?v"
    and flat: "snd (sizePixels createSimpleLevel) \<le> snd ?v"
    by (simp_all add: px)
  have narrow: "fst (sizePixels ?s) \<le> fst ?v"
    by simp
  from camera_center_clamped [of ?v createSimpleLevel ?p] wide flat
  have "fst (viewCenter ?v createSimpleLevel ?p) =
          std_clamp (fst (position ?p)) (fst ?v / 2) (fst (sizePixels createSimpleLevel) - fst ?v / 2)"
    and "snd (viewCenter ?v createSimpleLevel ?p) = snd (sizePixels createSimpleLevel) / 2"
    by blast+
  then have 1: "viewCenter ?v createSimpleLevel ?p = (400, 300)"
    by (simp add: px std_clamp_def prod_eq_iff)
  from camera_center_clamped [of ?v createSimpleLevel ?p] high
  have "snd (viewCenter ?v createSimpleLevel ?p) + snd ?v / 2 \<le> snd (sizePixels createSimpleLevel)"
    by blast
  then have 3: "snd (viewCenter ?v createSimpleLevel ?p) + 600 / 2
      \<le> snd (sizePixels createSimpleLevel)"
    by simp
  from camera_center_clamped [of ?v ?s ?q] narrow
  have "fst (viewCenter ?v ?s ?q) = fst (sizePixels ?s) / 2"
    by blast
  then have 2: "fst (viewCenter ?v ?s ?q) = 60"
    by simp
  from wide high flat narrow 1 2 3 show ?thesis
    by blast
qed

subsection \<open>One tick\<close>

text \<open>
  Claim C2, as amended. The update step runs gravity, then collision resolution, then
  the level bounds, and moves the player last. In a rectangular level it always
  returns, and with \<open>c\<close> the player after collision resolution:
  \<^item> the result is the player that the level bounds make of \<open>c\<close>, moved by its velocity;
  \<^item> if the box of \<open>c\<close> is within the level, the result is \<open>c\<close> moved by its velocity,
    and nothing holds the moved box to the bounds;
  \<^item> if the box of \<open>c\<close> is above the top boundary and not below the bottom one, the tick
    ends with the top edge at 0 and vertical velocity 0;
  \<^item> if the box of \<open>c\<close> is past the left boundary only, or past the right boundary and
    neither above the top nor below the bottom, the tick ends with that edge on the
    boundary and horizontal velocity 0.
\<close>

theorem tick_moves_after_bounds:
  assumes "level_ok level"
  shows "\<exists>c. handleCollision level (applyGravity p) = Some c \<and>
           tick level p =
             Some (updatePosition (fst (handleLevelBounds level c)),
                   snd (handleLevelBounds level c)) \<and>
           (0 \<le> leftEdge (getGlobalBounds c) \<and>
            rightEdge (getGlobalBounds c) \<le> fst (sizePixels level) \<and>
            0 \<le> topEdge (getGlobalBounds c) \<and>
            bottomEdge (getGlobalBounds c) \<le> snd (sizePixels level)
            \<longrightarrow> tick level p = Some (updatePosition c, [])) \<and>
           (topEdge (getGlobalBounds c) < 0 \<and>
            bottomEdge (getGlobalBounds c) \<le> snd (sizePixels level)
            \<longrightarrow> (\<exists>e. tick level p = Some (e, []) \<and>
                      topEdge (getGlobalBounds e) = 0 \<and> snd (velocity e) = 0)) \<and>
           (leftEdge (getGlobalBounds c) < 0 \<and>
            rightEdge (getGlobalBounds c) \<le> fst (sizePixels level) \<and>
            0 \<le> topEdge (getGlobalBounds c) \<and>
            bottomEdge (getGlobalBounds c) \<le> snd (sizePixels level)
            \<longrightarrow> (\<exists>e. tick level p = Some (e, []) \<and>
                      leftEdge (getGlobalBounds e) = 0 \<and> fst (velocity e) = 0)) \<and>
           (fst (sizePixels level) < rightEdge (getGlobalBounds c) \<and>
            0 \<le> topEdge (getGlobalBounds c) \<and>
            bottomEdge (getGlobalBounds c) \<le> snd (sizePixels level)
            \<longrightarrow> (\<exists>e. tick level p = Some (e, []) \<and>
                      rightEdge (getGlobalBounds e) = fst (sizePixels level) \<and>
                      fst (velocity e) = 0))"
proof -
  obtain c where c: "handleCollision level (applyGravity p) = Some c"
    using handleCollision_defined [OF assms] by blast
  have t: "tick level p =
      Some (updatePosition (fst (handleLevelBounds level c)), snd (handleLevelBounds level c))"
    by (simp add: tick_def c split: prod.splits)
  have 1: "tick level p = Some (updatePosition c, [])"
    if "0 \<le> leftEdge (getGlobalBounds c) \<and>
        rightEdge (getGlobalBounds c) \<le> fst (sizePixels level) \<and>
        0 \<le> topEdge (getGlobalBounds c) \<and>
        bottomEdge (getGlobalBounds c) \<le> snd (sizePixels level)"
    using that unfolding t
    by (simp add: handleLevelBounds_def Let_def leftEdge_def rightEdge_def topEdge_def
        bottomEdge_def getGlobalBounds_def shape_getOrigin_def)
  have 2: "\<exists>e. tick level p = Some (e, []) \<and>
               topEdge (getGlobalBounds e) = 0 \<and> snd (velocity e) = 0"
    if "topEdge (getGlobalBounds c) < 0 \<and>
        bottomEdge (getGlobalBounds c) \<le> snd (sizePixels level)"
    using that unfolding t
    by (simp add: handleLevelBounds_def Let_def updatePosition_def topEdge_def
        bottomEdge_def getGlobalBounds_def shape_getOrigin_def)
  have 3: "\<exists>e. tick level p = Some (e, []) \<and>
               leftEdge (getGlobalBounds e) = 0 \<and> fst (velocity e) = 0"
    if "leftEdge (getGlobalBounds c) < 0 \<and>
        rightEdge (getGlobalBounds c) \<le> fst (sizePixels level) \<and>
        0 \<le> topEdge (getGlobalBounds c) \<and>
        bottomEdge (getGlobalBounds c) \<le> snd (sizePixels level)"
    using that unfolding t
    by (simp add: handleLevelBounds_def Let_def updatePosition_def leftEdge_def rightEdge_def
        topEdge_def bottomEdge_def getGlobalBounds_def shape_getOrigin_def)
  have 4: "\<exists>e. tick level p = Some (e, []) \<and>
               rightEdge (getGlobalBounds e) = fst (sizePixels level) \<and> fst (velocity e) = 0"
    if "fst (sizePixels level) < rightEdge (getGlobalBounds c) \<and>
        0 \<le> topEdge (getGlobalBounds c) \<and>
        bottomEdge (getGlobalBounds c) \<le> snd (sizePixels level)"
    using that unfolding t
    by (simp add: handleLevelBounds_def Let_def updatePosition_def leftEdge_def rightEdge_def
        topEdge_def bottomEdge_def getGlobalBounds_def shape_getOrigin_def)
  show ?thesis
    by (rule exI [of _ c], intro conjI impI) (fact c t | erule 1 2 3 4)+
qed

theorem tick_moves_after_bounds_witness:
  "level_ok createSimpleLevel \<and>
   tick createSimpleLevel \<lparr>position = (20, 541), velocity = (- 5, 0), isOnGround = True\<rparr>
     = Some (\<lparr>position = (15, 541), velocity = (- 5, 0), isOnGround = True\<rparr>, []) \<and>
   (\<exists>e. tick createSimpleLevel \<lparr>position = (300, 10), velocity = (0, - 5), isOnGround = False\<rparr>
            = Some (e, []) \<and>
        topEdge (getGlobalBounds e) = 0 \<and> snd (velocity e) = 0) \<and>
   (\<exists>e. tick createSimpleLevel \<lparr>position = (10, 541), velocity = (0, 0), isOnGround = True\<rparr>
            = Some (e, []) \<and>
        leftEdge (getGlobalBounds e) = 0 \<and> fst (velocity e) = 0) \<and>
   (\<exists>e. tick createSimpleLevel \<lparr>position = (1590, 541), velocity = (0, 0), isOnGround = True\<rparr>
            = Some (e, []) \<and>
        rightEdge (getGlobalBounds e) = 1600 \<and> fst (velocity e) = 0)"
proof -
  let ?L = createSimpleLevel
  let ?a = "\<lparr>position = (20, 541), velocity = (- 5, 0), isOnGround = True\<rparr>"
  let ?b = "\<lparr>position = (300, 10), velocity = (0, - 5), isOnGround = False\<rparr>"
  let ?c = "\<lparr>position = (10, 541), velocity = (0, 0), isOnGround = True\<rparr>"
  let ?d = "\<lparr>position = (1590, 541), velocity = (0, 0), isOnGround = True\<rparr>"
  let ?b' = "\<lparr>position = (300, 10), velocity = (0, - 21 / 5), isOnGround = False\<rparr>"
  have ok: "level_ok ?L"
    by (rule createSimpleLevel_ok)
  have px: "sizePixels ?L = (1600, 600)"
    by code_simp
  \<comment> \<open>within the level: moved by the velocity, and then outside\<close>
  have ca: "handleCollision ?L (applyGravity ?a) = Some ?a"
    by code_simp
  have ha: "0 \<le> leftEdge (getGlobalBounds ?a) \<and>
            rightEdge (getGlobalBounds ?a) \<le> fst (sizePixels ?L) \<and>
            0 \<le> topEdge (getGlobalBounds ?a) \<and>
            bottomEdge (getGlobalBounds ?a) \<le> snd (sizePixels ?L)"
    by code_simp
  from tick_moves_after_bounds [OF ok, of ?a] obtain c where
    "handleCollision ?L (applyGravity ?a) = Some c" and
    "0 \<le> leftEdge (getGlobalBounds c) \<and>
     rightEdge (getGlobalBounds c) \<le> fst (sizePixels ?L) \<and>
     0 \<le> topEdge (getGlobalBounds c) \<and>
     bottomEdge (getGlobalBounds c) \<le> snd (sizePixels ?L)
     \<longrightarrow> tick ?L ?a = Some (updatePosition c, [])"
    by (elim exE conjE) (rule that; assumption)
  with ca ha have "tick ?L ?a = Some (updatePosition ?a, [])"
    by simp
  then have 1: "tick ?L ?a =
      Some (\<lparr>position = (15, 541), velocity = (- 5, 0), isOnGround = True\<rparr>, [])"
    by (simp add: updatePosition_def)
  \<comment> \<open>above the top boundary\<close>
  have cb: "handleCollision ?L (applyGravity ?b) = Some ?b'"
    by code_simp
  have hb: "topEdge (getGlobalBounds ?b') < 0 \<and>
            bottomEdge (getGlobalBounds ?b') \<le> snd (sizePixels ?L)"
    by code_simp
  from tick_moves_after_bounds [OF ok, of ?b] obtain c where
    "handleCollision ?L (applyGravity ?b) = Some c" and
    "topEdge (getGlobalBounds c) < 0 \<and>
     bottomEdge (getGlobalBounds c) \<le> snd (sizePixels ?L)
     \<longrightarrow> (\<exists>e. tick ?L ?b = Some (e, []) \<and>
               topEdge (getGlobalBounds e) = 0 \<and> snd (velocity e) = 0)"
    by (elim exE conjE) (rule that; assumption)
  with cb hb have 2: "\<exists>e. tick ?L ?b = Some (e, []) \<and>
      topEdge (getGlobalBounds e) = 0 \<and> snd (velocity e) = 0"
    by simp
  \<comment> \<open>past the left boundary\<close>
  have cc: "handleCollision ?L (applyGravity ?c) = Some ?c"
    by code_simp
  have hc: "leftEdge (getGlobalBounds ?c) < 0 \<and>
            rightEdge (getGlobalBounds ?c) \<le> fst (sizePixels ?L) \<and>
            0 \<le> topEdge (getGlobalBounds ?c) \<and>
            bottomEdge (getGlobalBounds ?c) \<le> snd (sizePixels ?L)"
    by code_simp
  from tick_moves_after_bounds [OF ok, of ?c] obtain c where
    "handleCollision ?L (applyGravity ?c) = Some c" and
    "leftEdge (getGlobalBounds c) < 0 \<and>
     rightEdge (getGlobalBounds c) \<le> fst (sizePixels ?L) \<and>
     0 \<le> topEdge (getGlobalBounds c) \<and>
     bottomEdge (getGlobalBounds c) \<le> snd (sizePixels ?L)
     \<longrightarrow> (\<exists>e. tick ?L ?c = Some (e, []) \<and>
               leftEdge (getGlobalBounds e) = 0 \<and> fst (velocity e) = 0)"
    by (elim exE conjE) (rule that; assumption)
  with cc hc have 3: "\<exists>e. tick ?L ?c = Some (e, []) \<and>
      leftEdge (getGlobalBounds e) = 0 \<and> fst (velocity e) = 0"
    by simp
  \<comment> \<open>past the right boundary\<close>
  have cd: "handleCollision ?L (applyGravity ?d) = Some ?d"
    by code_simp
  have hd: "fst (sizePixels ?L) < rightEdge (getGlobalBounds ?d) \<and>
            0 \<le> topEdge (getGlobalBounds ?d) \<and>
            bottomEdge (getGlobalBounds ?d) \<le> snd (sizePixels ?L)"
    by code_simp
  from tick_moves_after_bounds [OF ok, of ?d] obtain c where
    "handleCollision ?L (applyGravity ?d) = Some c" and
    "fst (sizePixels ?L) < rightEdge (getGlobalBounds c) \<and>
     0 \<le> topEdge (getGlobalBounds c) \<and>
     bottomEdge (getGlobalBounds c) \<le> snd (sizePixels ?L)
     \<longrightarrow> (\<exists>e. tick ?L ?d = Some (e, []) \<and>
               rightEdge (getGlobalBounds e) = fst (sizePixels ?L) \<and> fst (velocity e) = 0)"
    by (elim exE conjE) (rule that; assumption)
  with cd hd have "\<exists>e. tick ?L ?d = Some (e, []) \<and>
      rightEdge (getGlobalBounds e) = fst (sizePixels ?L) \<and> fst (velocity e) = 0"
    by simp
  then have 4: "\<exists>e. tick ?L ?d = Some (e, []) \<and>
      rightEdge (getGlobalBounds e) = 1600 \<and> fst (velocity e) = 0"
    by (simp add: px)
  show ?thesis
    by (intro conjI) (fact ok 1 2 3 4)+
qed

text \<open>
  Claim C2 as the specification states it puts the position update before the level
  bounds and concludes that every tick ends with the box within the level on X. The
  code moves the player after the bounds were enforced. In the level of the game, a
  player standing on the floor at (20, 541) with the left key held (velocity (-5, 0))
  has its left edge at 4 when the bounds are tested, passes the test, and ends the tick
  at (15, 541), its left edge at -1.
\<close>

theorem tick_leaves_level_counterexample:
  "tick createSimpleLevel \<lparr>position = (20, 541), velocity = (- 5, 0), isOnGround = True\<rparr>
     = Some (\<lparr>position = (15, 541), velocity = (- 5, 0), isOnGround = True\<rparr>, []) \<and>
   leftEdge (getGlobalBounds \<lparr>position = (15, 541), velocity = (- 5, 0), isOnGround = True\<rparr>)
     = - 1"
  by code_simp

subsection \<open>Falling out of the level\<close>

text \<open>
  Claim C4. First, for every level and player: if the bottom edge of the box is below
  the level, \<open>handleLevelBounds\<close> returns the player at the respawn point
  \<open>(1.5 * TILE_SIZE, (height - 3) * TILE_SIZE)\<close> with velocity \<open>(0, 0)\<close>, not on the
  ground, and prints the message of the reset once. Second, the scenario: a level at
  least 2 tiles wide and 4 tiles high whose pixel size is its size in tiles times
  \<^verbatim>\<open>TILE_SIZE\<close> and whose column 1, the column of the start player, has no \<open>Solid\<close> tile.
  From the start player, with no key pressed, the first 15 iterations print nothing
  and end with the bottom edge within the level; the 16th prints nothing and ends with
  the bottom edge below the level for the first time; the 17th, the first whose bounds
  test sees that, prints the message and ends in the start player again. So in these
  17 iterations the reset happens exactly once.
\<close>

theorem fall_through_resets_once:
  "(bottomEdge (getGlobalBounds p) > snd (sizePixels level) \<longrightarrow>
      handleLevelBounds level p =
        (\<lparr>position = (15 / 10 * real_of_int TILE_SIZE,
                       (real (snd (size_L level)) - 3) * real_of_int TILE_SIZE),
          velocity = (0, 0), isOnGround = False\<rparr>,
         [''Player fell out of bounds!''])) \<and>
   ((\<forall>y. getTile level 1 y = Some Air) \<and> pixels_ok level \<and>
    2 \<le> fst (size_L level) \<and> 4 \<le> snd (size_L level) \<longrightarrow>
      (\<forall>n \<le> 15. \<exists>q. ticks n level (startPlayer level) = Some (q, []) \<and>
                     bottomEdge (getGlobalBounds q) \<le> snd (sizePixels level)) \<and>
      (\<exists>q. ticks 16 level (startPlayer level) = Some (q, []) \<and>
            bottomEdge (getGlobalBounds q) > snd (sizePixels level)) \<and>
      ticks 17 level (startPlayer level) =
        Some (startPlayer level, [''Player fell out of bounds!'']))"
proof (intro conjI impI)
  assume "bottomEdge (getGlobalBounds p) > snd (sizePixels level)"
  then show "handleLevelBounds level p =
        (\<lparr>position = (15 / 10 * real_of_int TILE_SIZE,
                       (real (snd (size_L level)) - 3) * real_of_int TILE_SIZE),
          velocity = (0, 0), isOnGround = False\<rparr>,
         [''Player fell out of bounds!''])"
    by (simp add: handleLevelBounds_def Let_def bottomEdge_def getGlobalBounds_def
        shape_getOrigin_def)
next
  assume a: "(\<forall>y. getTile level 1 y = Some Air) \<and> pixels_ok level \<and>
    2 \<le> fst (size_L level) \<and> 4 \<le> snd (size_L level)"
  then have air: "\<forall>y. getTile level 1 y = Some Air" and px: "pixels_ok level"
    and w: "2 \<le> fst (size_L level)" and h: "4 \<le> snd (size_L level)"
    by simp_all
  have H: "snd (sizePixels level) = 40 * real (snd (size_L level))"
    using px by (simp add: pixels_ok_def TILE_SIZE_def)
  have run: "ticks n level (startPlayer level) = Some (falling level n, [])" if "n \<le> 16" for n
    using fall_run [OF air px w h, of 0 n] that by (simp add: falling_0)
  show "\<forall>n \<le> 15. \<exists>q. ticks n level (startPlayer level) = Some (q, []) \<and>
                     bottomEdge (getGlobalBounds q) \<le> snd (sizePixels level)"
  proof (intro allI impI)
    fix n :: nat
    assume n: "n \<le> 15"
    have "bottomEdge (getGlobalBounds (falling level n)) \<le> snd (sizePixels level)"
      using fall_depth [OF n]
      by (simp add: H bottomEdge_def getGlobalBounds_def falling_def shape_getOrigin_def
          shape_getSize_def TILE_SIZE_def)
    with run [of n] n
    show "\<exists>q. ticks n level (startPlayer level) = Some (q, []) \<and>
              bottomEdge (getGlobalBounds q) \<le> snd (sizePixels level)"
      by simp
  qed
  have "bottomEdge (getGlobalBounds (falling level 16)) > snd (sizePixels level)"
    by (simp add: H bottomEdge_def getGlobalBounds_def falling_def shape_getOrigin_def
        shape_getSize_def TILE_SIZE_def)
  with run [of 16]
  show "\<exists>q. ticks 16 level (startPlayer level) = Some (q, []) \<and>
            bottomEdge (getGlobalBounds q) > snd (sizePixels level)"
    by simp
  have "ticks (16 + 1) level (startPlayer level) =
      Some (startPlayer level, [''Player fell out of bounds!''])"
    unfolding ticks_add using run [of 16] fall_reset [OF air px] by simp
  then show "ticks 17 level (startPlayer level) =
      Some (startPlayer level, [''Player fell out of bounds!''])"
    by simp
qed

theorem fall_through_resets_once_witness:
  "(\<forall>y. getTile \<lparr>tiles = replicate 15 (replicate 40 Air), size_L = (40, 15),
                    sizePixels = (1600, 600)\<rparr> 1 y = Some Air) \<and>
   pixels_ok \<lparr>tiles = replicate 15 (replicate 40 Air), size_L = (40, 15),
              sizePixels = (1600, 600)\<rparr> \<and>
   ticks 17 \<lparr>tiles = replicate 15 (replicate 40 Air), size_L = (40, 15),
             sizePixels = (1600, 600)\<rparr>
     \<lparr>position = (60, 480), velocity = (0, 0), isOnGround = False\<rparr>
     = Some (\<lparr>position = (60, 480), velocity = (0, 0), isOnGround = False\<rparr>,
             [''Player fell out of bounds!'']) \<and>
   (\<exists>q. ticks 15 \<lparr>tiles = replicate 15 (replicate 40 Air), size_L = (40, 15),
                  sizePixels = (1600, 600)\<rparr>
          \<lparr>position = (60, 480), velocity = (0, 0), isOnGround = False\<rparr> = Some (q, []) \<and>
        bottomEdge (getGlobalBounds q) \<le> 600) \<and>
   bottomEdge (getGlobalBounds \<lparr>position = (300, 590), velocity = (5, 20), isOnGround = True\<rparr>)
     > 600 \<and>
   handleLevelBounds \<lparr>tiles = replicate 15 (replicate 40 Air), size_L = (40, 15),
                      sizePixels = (1600, 600)\<rparr>
     \<lparr>position = (300, 590), velocity = (5, 20), isOnGround = True\<rparr>
     = (\<lparr>position = (60, 480), velocity = (0, 0), isOnGround = False\<rparr>,
        [''Player fell out of bounds!''])"
proof -
  let ?A = "\<lparr>tiles = replicate 15 (replicate 40 Air), size_L = (40, 15),
             sizePixels = (1600 :: real, 600 :: real)\<rparr>"
  let ?s = "\<lparr>position = (60, 480), velocity = (0, 0), isOnGround = False\<rparr>"
  let ?p = "\<lparr>position = (300, 590), velocity = (5, 20), isOnGround = True\<rparr>"
  have air: "\<forall>y. getTile ?A 1 y = Some Air"
    by (auto simp: getTile_def vector_at_def)
  have px: "pixels_ok ?A"
    by (simp add: pixels_ok_def TILE_SIZE_def)
  have sz: "2 \<le> fst (size_L ?A)" "4 \<le> snd (size_L ?A)"
    by simp_all
  have start: "startPlayer ?A = ?s"
    by (simp add: startPlayer_def Player_new_def TILE_SIZE_def)
  have below: "bottomEdge (getGlobalBounds ?p) > snd (sizePixels ?A)"
    by (simp add: bottomEdge_def getGlobalBounds_def shape_getOrigin_def shape_getSize_def
        TILE_SIZE_def)
  note inst = fall_through_resets_once [where p = ?p and level = ?A]
  from inst below have reset: "handleLevelBounds ?A ?p =
      (\<lparr>position = (15 / 10 * real_of_int TILE_SIZE,
                     (real (snd (size_L ?A)) - 3) * real_of_int TILE_SIZE),
        velocity = (0, 0), isOnGround = False\<rparr>,
       [''Player fell out of bounds!''])"
    by blast
  from inst air px sz
  have run: "\<forall>n \<le> 15. \<exists>q. ticks n ?A (startPlayer ?A) = Some (q, []) \<and>
                 bottomEdge (getGlobalBounds q) \<le> snd (sizePixels ?A)"
    and once: "ticks 17 ?A (startPlayer ?A) =
                 Some (startPlayer ?A, [''Player fell out of bounds!''])"
    by blast+
  from run have "\<exists>q. ticks 15 ?A (startPlayer ?A) = Some (q, []) \<and>
                 bottomEdge (getGlobalBounds q) \<le> snd (sizePixels ?A)"
    by blast
  then have 1: "\<exists>q. ticks 15 ?A ?s = Some (q, []) \<and> bottomEdge (getGlobalBounds q) \<le> 600"
    by (simp add: start)
  from once have 2: "ticks 17 ?A ?s = Some (?s, [''Player fell out of bounds!''])"
    by (simp add: start)
  from reset have 3: "handleLevelBounds ?A ?p = (?s, [''Player fell out of bounds!''])"
    by (simp add: TILE_SIZE_def)
  from below have 4: "bottomEdge (getGlobalBounds ?p) > 600"
    by simp
  show ?thesis
    by (intro conjI) (fact air px 1 2 3 4)+
qed

end
